theory Spec2Isabelle
  imports Main "HOL-Library.Word"
begin

unbundle bit_operations_syntax

section \<open>The HTTPS listen point of onion (src/onion/https.c)\<close>

text \<open>
  The file is glue between the generic listen-point interface of the server and the
  GnuTLS engine. Every function of it is a sequence of calls into the engine, the C
  library and the rest of onion, with a few decisions taken on the values those calls
  return. The embedding keeps exactly that: each function takes the trace of external
  calls made so far and returns its result together with the extended trace. What the
  outside world answers (handles, return codes) is a parameter of the function.
  Dereferencing a null pointer is a result of its own (\<open>Inl NullDeref\<close>), and a loop
  that need not end returns an \<open>option\<close>.
\<close>

subsection \<open>Data\<close>

text \<open>Opaque handles (\<open>gnutls_session_t\<close> and friends, \<open>onion_request *\<close>); 0 is NULL.\<close>

type_synonym handle = nat

text \<open>\<open>struct onion_https_t\<close>, lines 39-43.\<close>

record onion_https =
  x509_cred :: handle
  dh_params :: handle
  priority_cache :: handle

text \<open>\<open>struct onion_https_connection_t\<close>, lines 48-51.\<close>

record onion_https_connection =
  req :: handle
  session :: handle

text \<open>
  The fields of \<open>onion_connection\<close>, \<open>onion_t\<close> and \<open>onion_listen_point\<close>
  (types_internal.h) that https.c reads or writes. A pointer field that may be NULL is
  an \<open>option\<close>; a function pointer holds the name of the function stored in it.
\<close>

record onion_connection =
  fd :: int
  con_user_data :: "onion_https_connection option"

record onion_server =
  flags :: "32 word"

datatype hook =
    Hook_onion_https_accept_connection
  | Hook_onion_https_free
  | Hook_onion_https_read
  | Hook_onion_https_write
  | Hook_onion_https_close
  | Hook_onion_http_read_ready

record onion_listen_point =
  server :: "onion_server option"
  hostname :: "string option"
  port :: "string option"
  listenfd :: int
  op_user_data :: "onion_https option"
  op_connection_new :: "hook option"
  op_free :: "hook option"
  op_read :: "hook option"
  op_write :: "hook option"
  op_close :: "hook option"
  op_read_ready :: "hook option"

text \<open>
  The enumerators of \<open>onion_ssl_certificate_type\<close> (https.h) are used by name only
  in https.c; their values are parameters of the model.
\<close>

record https_consts =
  O_SSL_CERTIFICATE_KEY :: "32 word"
  O_SSL_CERTIFICATE_CRL :: "32 word"
  O_SSL_CERTIFICATE_TRUST :: "32 word"
  O_SSL_CERTIFICATE_PKCS12 :: "32 word"
  O_SSL_DER :: "32 word"
  O_SSL_NO_DEINIT :: "32 word"

datatype gnutls_x509_crt_fmt_t = GNUTLS_X509_FMT_DER | GNUTLS_X509_FMT_PEM

datatype fault = NullDeref | VaArgMissing

subsection \<open>The trace of external calls\<close>

datatype log_arg = ArgStr string | ArgStrPtr "string option" | ArgInt int | ArgPtr handle

datatype event =
    ONION_DEBUG string "log_arg list"
  | ONION_ERROR string "log_arg list"
  | E_onion_listen_point_new
  | E_calloc_onion_https
  | E_gcry_control_SET_THREAD_CBS
  | E_gnutls_global_init
  | E_gnutls_certificate_allocate_credentials handle
  | E_gnutls_dh_params_init handle
  | E_gnutls_dh_params_generate2 handle nat
  | E_gnutls_certificate_set_dh_params handle handle
  | E_gnutls_priority_init handle string
  | E_gnutls_certificate_set_x509_crl_file handle string gnutls_x509_crt_fmt_t int
  | E_gnutls_certificate_set_x509_key_file handle string string gnutls_x509_crt_fmt_t int
  | E_gnutls_certificate_set_x509_trust_file handle string gnutls_x509_crt_fmt_t int
  | E_gnutls_certificate_set_x509_simple_pkcs12_file handle string gnutls_x509_crt_fmt_t string int
  | E_gnutls_certificate_free_credentials handle
  | E_gnutls_dh_params_deinit handle
  | E_gnutls_priority_deinit handle
  | E_gnutls_global_deinit
  | E_free_onion_https onion_https
  | E_shutdown int
  | E_close int
  | E_free_onion_listen_point
  | E_onion_connection_new_from_socket "onion_connection option"
  | E_gnutls_init handle
  | E_gnutls_priority_set handle handle
  | E_gnutls_credentials_set handle handle
  | E_gnutls_certificate_server_set_request handle
  | E_gnutls_session_enable_compatibility_mode handle
  | E_gnutls_transport_set_ptr handle int
  | E_gnutls_handshake handle int
  | E_onion_connection_free onion_connection
  | E_malloc_onion_https_connection
  | E_onion_request_new onion_connection handle
  | E_gnutls_record_recv handle nat int
  | E_gnutls_record_send handle "8 word list" int
  | E_gnutls_bye handle int
  | E_gnutls_deinit handle
  | E_onion_request_free handle
  | E_free_onion_https_connection onion_https_connection
  | E_onion_connection_close_socket onion_connection

text \<open>
  An event that carries a connection carries it as it is when the call is made, so the
  trace shows whether the per-connection data was still attached at that moment.
\<close>

fun is_debug :: "event \<Rightarrow> bool" where
  "is_debug (ONION_DEBUG m a) = True"
| "is_debug e = False"

fun is_error_log :: "event \<Rightarrow> bool" where
  "is_error_log (ONION_ERROR m a) = True"
| "is_error_log e = False"

subsection \<open>Listen-point teardown: \<open>onion_https_free\<close>, lines 134-146\<close>

definition onion_https_free ::
  "https_consts \<Rightarrow> onion_listen_point \<Rightarrow> event list \<Rightarrow> (fault + unit) \<times> event list" where
  "onion_https_free K op tr =
    (let tr1 = tr @ [ONION_DEBUG ''Close HTTPS %s:%s'' [ArgStrPtr (hostname op), ArgStrPtr (port op)]]
     in case op_user_data op of
          None \<Rightarrow> (Inl NullDeref, tr1)
        | Some https \<Rightarrow>
           (let tr2 = tr1 @ [E_gnutls_certificate_free_credentials (x509_cred https),
                             E_gnutls_dh_params_deinit (dh_params https),
                             E_gnutls_priority_deinit (priority_cache https)]
            in case server op of
                 None \<Rightarrow> (Inl NullDeref, tr2)
               | Some srv \<Rightarrow>
                  (let tr3 = (if flags srv AND O_SSL_NO_DEINIT K = 0
                              then tr2 @ [E_gnutls_global_deinit] else tr2)
                   in (Inr (), tr3 @ [E_free_onion_https https,
                                      E_shutdown (listenfd op),
                                      E_close (listenfd op)]))))"

subsection \<open>The generic listen point (listen_point.c, not part of https.c)\<close>

text \<open>
  Modelled from the spec: \<open>onion_listen_point_new\<close> is defined in listen_point.c.
  The listen point it returns is the one "already allocated" that construction fills in:
  it belongs to no server yet, is bound to no address and has no hooks. (It takes no
  argument, and https.c never assigns \<open>op->server\<close>.)
\<close>

definition onion_listen_point_new :: onion_listen_point where
  "onion_listen_point_new =
     \<lparr>server = None, hostname = None, port = None, listenfd = 0, op_user_data = None,
      op_connection_new = None, op_free = None, op_read = None, op_write = None,
      op_close = None, op_read_ready = None\<rparr>"

text \<open>
  Modelled from the spec: \<open>onion_listen_point_free\<close> is defined in listen_point.c. It
  is what "releases all state already allocated for this listen point": it runs the
  teardown hook stored in \<open>op->free\<close> (here \<open>onion_https_free\<close>, stored at line 66)
  and then frees the listen point itself.
\<close>

definition onion_listen_point_free ::
  "https_consts \<Rightarrow> onion_listen_point \<Rightarrow> event list \<Rightarrow> (fault + unit) \<times> event list" where
  "onion_listen_point_free K op tr =
    (case op_free op of
       Some Hook_onion_https_free \<Rightarrow>
         (case onion_https_free K op tr of
            (Inl f, tr1) \<Rightarrow> (Inl f, tr1)
          | (Inr u, tr1) \<Rightarrow> (Inr (), tr1 @ [E_free_onion_listen_point]))
     | _ \<Rightarrow> (Inr (), tr @ [E_free_onion_listen_point]))"

subsection \<open>Listen-point construction: \<open>onion_https_new\<close>, lines 62-131\<close>

text \<open>What the outside gives to one call of \<open>onion_https_new\<close>.\<close>

record setup_env =
  HAVE_PTHREADS :: bool
  new_cred :: handle
  new_dh :: handle
  new_priority :: handle
  load_result :: int
  setup_strerror :: "int \<Rightarrow> string"

text \<open>The format argument \<open>(type&O_SSL_DER) ? GNUTLS_X509_FMT_DER : GNUTLS_X509_FMT_PEM\<close>.\<close>

definition certificate_fmt :: "https_consts \<Rightarrow> 32 word \<Rightarrow> gnutls_x509_crt_fmt_t" where
  "certificate_fmt K type =
     (if type AND O_SSL_DER K \<noteq> 0 then GNUTLS_X509_FMT_DER else GNUTLS_X509_FMT_PEM)"

text \<open>
  The \<open>switch\<close> of lines 89-119. The variadic arguments are a list; \<open>va_arg\<close> takes
  its head, and reading an argument that was not passed is undefined in C.
\<close>

definition set_certificate ::
  "https_consts \<Rightarrow> setup_env \<Rightarrow> handle \<Rightarrow> 32 word \<Rightarrow> string \<Rightarrow> string list \<Rightarrow> event list
     \<Rightarrow> (fault + int) \<times> event list" where
  "set_certificate K E cred type filename va tr =
    (let mode = type AND 0x0FF; fmt = certificate_fmt K type; r = load_result E
     in if mode = O_SSL_CERTIFICATE_CRL K then
          (Inr r, tr @ [E_gnutls_certificate_set_x509_crl_file cred filename fmt r])
        else if mode = O_SSL_CERTIFICATE_KEY K then
          (case va of
             [] \<Rightarrow> (Inl VaArgMissing, tr)
           | keyfile # rest \<Rightarrow>
               (Inr r, tr @ [E_gnutls_certificate_set_x509_key_file cred filename keyfile fmt r]))
        else if mode = O_SSL_CERTIFICATE_TRUST K then
          (Inr r, tr @ [E_gnutls_certificate_set_x509_trust_file cred filename fmt r])
        else if mode = O_SSL_CERTIFICATE_PKCS12 K then
          (case va of
             [] \<Rightarrow> (Inl VaArgMissing, tr)
           | password # rest \<Rightarrow>
               (Inr r, tr @ [E_gnutls_certificate_set_x509_simple_pkcs12_file
                               cred filename fmt password r]))
        else
          (Inr (- 1), tr @ [ONION_ERROR ''Set unknown type of certificate: %d'' [ArgInt (sint type)]]))"

definition onion_https_new ::
  "https_consts \<Rightarrow> setup_env \<Rightarrow> 32 word \<Rightarrow> string \<Rightarrow> string list \<Rightarrow> event list
     \<Rightarrow> (fault + onion_listen_point option) \<times> event list" where
  "onion_https_new K E type filename va tr =
    (let https = \<lparr>x509_cred = new_cred E, dh_params = new_dh E, priority_cache = new_priority E\<rparr>;
         op = onion_listen_point_new
                \<lparr>op_user_data := Some https,
                 op_connection_new := Some Hook_onion_https_accept_connection,
                 op_free := Some Hook_onion_https_free,
                 op_read := Some Hook_onion_https_read,
                 op_write := Some Hook_onion_https_write,
                 op_close := Some Hook_onion_https_close,
                 op_read_ready := Some Hook_onion_http_read_ready\<rparr>;
         tr1 = tr @ [E_onion_listen_point_new, E_calloc_onion_https]
                  @ (if HAVE_PTHREADS E then [E_gcry_control_SET_THREAD_CBS] else [])
                  @ [E_gnutls_global_init,
                     E_gnutls_certificate_allocate_credentials (x509_cred https),
                     E_gnutls_dh_params_init (dh_params https),
                     E_gnutls_dh_params_generate2 (dh_params https) 1024,
                     E_gnutls_certificate_set_dh_params (x509_cred https) (dh_params https),
                     E_gnutls_priority_init (priority_cache https)
                       ''PERFORMANCE:%SAFE_RENEGOTIATION:-VERS-TLS1.0'']
     in case set_certificate K E (x509_cred https) type filename va tr1 of
          (Inl f, tr2) \<Rightarrow> (Inl f, tr2)
        | (Inr r, tr2) \<Rightarrow>
            if r < 0 then
              (case onion_listen_point_free K op
                      (tr2 @ [ONION_ERROR ''Error setting the certificate (%s)''
                                [ArgStr (setup_strerror E r)]]) of
                 (Inl f, tr3) \<Rightarrow> (Inl f, tr3)
               | (Inr u, tr3) \<Rightarrow> (Inr None, tr3))
            else
              (Inr (Some op), tr2 @ [ONION_DEBUG ''HTTPS connection ready'' []]))"

subsection \<open>Accepting a connection: \<open>onion_https_accept_connection\<close>, lines 148-185\<close>

text \<open>
  What the outside gives to one call of accept: the connection that
  \<open>onion_connection_new_from_socket\<close> returns (a pointer, so possibly NULL), the session
  handle \<open>gnutls_init\<close> stores, the request \<open>onion_request_new\<close> returns, the result of
  the n-th call of \<open>gnutls_handshake\<close> on the session, and the engine's
  \<open>gnutls_error_is_fatal\<close> and \<open>gnutls_strerror\<close>.
\<close>

record accept_env =
  accepted :: "onion_connection option"
  new_session :: handle
  new_request :: handle
  handshake_result :: "nat \<Rightarrow> int"
  gnutls_error_is_fatal :: "int \<Rightarrow> int"
  gnutls_strerror :: "int \<Rightarrow> string"

text \<open>The condition of the \<open>do ... while\<close> at line 171.\<close>

definition handshake_again :: "(int \<Rightarrow> int) \<Rightarrow> int \<Rightarrow> bool" where
  "handshake_again is_fatal ret = (ret < 0 \<and> is_fatal ret = 0)"

text \<open>
  The loop of lines 169-171, entered at the n-th call of \<open>gnutls_handshake\<close>. Nothing
  bounds the number of rounds, so the loop is a partial function: \<open>None\<close> when the engine
  answers "again" for ever.
\<close>

partial_function (option) handshake_loop ::
  "(int \<Rightarrow> int) \<Rightarrow> (nat \<Rightarrow> int) \<Rightarrow> handle \<Rightarrow> nat \<Rightarrow> event list \<Rightarrow> (int \<times> event list) option" where
  "handshake_loop is_fatal hs s n tr =
     (let ret = hs n; tr1 = tr @ [E_gnutls_handshake s ret]
      in if handshake_again is_fatal ret then handshake_loop is_fatal hs s (Suc n) tr1
         else Some (ret, tr1))"

definition onion_https_accept_connection ::
  "accept_env \<Rightarrow> onion_listen_point \<Rightarrow> event list
     \<Rightarrow> ((fault + onion_connection option) \<times> event list) option" where
  "onion_https_accept_connection E op tr =
    (let tr1 = tr @ [E_onion_connection_new_from_socket (accepted E)]
     in case accepted E of
          None \<Rightarrow> Some (Inl NullDeref, tr1)
        | Some oc \<Rightarrow>
           (let s = new_session E;
                tr2 = tr1 @ [ONION_DEBUG ''Socket fd %d'' [ArgInt (fd oc)], E_gnutls_init s]
            in case op_user_data op of
                 None \<Rightarrow> Some (Inl NullDeref, tr2)
               | Some https \<Rightarrow>
                  (let tr3 = tr2 @ [E_gnutls_priority_set s (priority_cache https),
                                    E_gnutls_credentials_set s (x509_cred https),
                                    E_gnutls_certificate_server_set_request s,
                                    E_gnutls_session_enable_compatibility_mode s,
                                    E_gnutls_transport_set_ptr s (fd oc)]
                   in case handshake_loop (gnutls_error_is_fatal E) (handshake_result E) s 0 tr3 of
                        None \<Rightarrow> None
                      | Some (ret, tr4) \<Rightarrow>
                          if ret < 0 then
                            Some (Inr None,
                                  tr4 @ [ONION_ERROR ''Handshake has failed (%s)''
                                           [ArgStr (gnutls_strerror E ret)],
                                         E_onion_connection_free oc])
                          else
                            (let user_data = \<lparr>req = new_request E, session = s\<rparr>;
                                 oc1 = oc\<lparr>con_user_data := Some user_data\<rparr>
                             in Some (Inr (Some oc1),
                                      tr4 @ [E_malloc_onion_https_connection,
                                             E_onion_request_new oc (new_request E),
                                             ONION_DEBUG ''Connection session %p, oc %p''
                                               [ArgPtr s, ArgInt (fd oc)]])))))"

subsection \<open>Reading and writing: lines 187-200\<close>

text \<open>\<open>recv\<close> is what \<open>gnutls_record_recv\<close> returns to this call.\<close>

definition onion_https_read ::
  "(int \<Rightarrow> string) \<Rightarrow> int \<Rightarrow> onion_connection \<Rightarrow> nat \<Rightarrow> event list \<Rightarrow> (fault + int) \<times> event list" where
  "onion_https_read strerror recv con len tr =
    (case con_user_data con of
       None \<Rightarrow> (Inl NullDeref, tr)
     | Some user_data \<Rightarrow>
        (let ret = recv;
             tr1 = tr @ [E_gnutls_record_recv (session user_data) len ret,
                         ONION_DEBUG ''Read! (%p), %d bytes'' [ArgPtr (session user_data), ArgInt ret]];
             tr2 = (if ret < 0
                    then tr1 @ [ONION_ERROR ''Reading data has failed (%s)'' [ArgStr (strerror ret)]]
                    else tr1)
         in (Inr ret, tr2)))"

text \<open>\<open>sent\<close> is what \<open>gnutls_record_send\<close> returns to this call.\<close>

definition onion_https_write ::
  "int \<Rightarrow> onion_connection \<Rightarrow> 8 word list \<Rightarrow> event list \<Rightarrow> (fault + int) \<times> event list" where
  "onion_https_write sent con data tr =
    (case con_user_data con of
       None \<Rightarrow> (Inl NullDeref, tr)
     | Some user_data \<Rightarrow>
        (Inr sent, tr @ [ONION_DEBUG ''Write! (%p)'' [ArgPtr (session user_data)],
                         E_gnutls_record_send (session user_data) data sent]))"

subsection \<open>Closing a connection: \<open>onion_https_close\<close>, lines 202-221\<close>

text \<open>
  \<open>bye\<close> is what \<open>gnutls_bye\<close> returns to this call; the code does not look at it. The
  function returns the connection as it leaves it.
\<close>

definition onion_https_close ::
  "int \<Rightarrow> onion_connection \<Rightarrow> event list \<Rightarrow> onion_connection \<times> event list" where
  "onion_https_close bye con tr =
    (let tr1 = tr @ [ONION_DEBUG ''Close HTTPS connection'' []];
         (con1, tr2) =
           (case con_user_data con of
              None \<Rightarrow> (con, tr1)
            | Some data \<Rightarrow>
               (let tr2 = tr1 @ [ONION_DEBUG ''Close HTTPS connection %p, oc %p''
                                   [ArgPtr (session data), ArgInt (fd con)]]
                in case con_user_data con of
                     None \<Rightarrow> (con, tr2)
                   | Some d \<Rightarrow>
                      (let s = session data;
                           tr3 = tr2 @ [E_gnutls_bye s bye,
                                        ONION_DEBUG ''Free session %p'' [ArgInt (fd con)]];
                           tr4 = (if session data \<noteq> 0 then tr3 @ [E_gnutls_deinit (session data)]
                                  else tr3);
                           tr5 = tr4 @ [E_onion_request_free (req data),
                                        E_free_onion_https_connection data]
                       in (con\<lparr>con_user_data := None\<rparr>, tr5))))
     in (con1, tr2 @ [E_onion_connection_close_socket con1]))"

subsection \<open>Observations on traces\<close>

text \<open>The calls of \<open>gnutls_handshake\<close> numbered n, ..., n + k - 1 on session s.\<close>

definition handshake_events :: "handle \<Rightarrow> (nat \<Rightarrow> int) \<Rightarrow> nat \<Rightarrow> nat \<Rightarrow> event list" where
  "handshake_events s hs n k = map (\<lambda>j. E_gnutls_handshake s (hs j)) [n..<n + k]"

text \<open>The calls accept makes before it enters the loop (lines 149-167).\<close>

definition accept_setup_events :: "onion_connection \<Rightarrow> handle \<Rightarrow> onion_https \<Rightarrow> event list" where
  "accept_setup_events oc s https =
     [E_onion_connection_new_from_socket (Some oc),
      ONION_DEBUG ''Socket fd %d'' [ArgInt (fd oc)],
      E_gnutls_init s,
      E_gnutls_priority_set s (priority_cache https),
      E_gnutls_credentials_set s (x509_cred https),
      E_gnutls_certificate_server_set_request s,
      E_gnutls_session_enable_compatibility_mode s,
      E_gnutls_transport_set_ptr s (fd oc)]"

text \<open>The strengths (in bits) asked of \<open>gnutls_dh_params_generate2\<close>, in order.\<close>

definition dh_bits_requested :: "event list \<Rightarrow> nat list" where
  "dh_bits_requested tr =
     concat (map (\<lambda>e. case e of E_gnutls_dh_params_generate2 h bits \<Rightarrow> [bits] | _ \<Rightarrow> []) tr)"

subsection \<open>The handshake state machine of the specification\<close>

text \<open>
  Section 4.3 of the specification, in its own words: from \<open>Handshaking\<close>, success leads
  to \<open>Established\<close>, a non-fatal incomplete result back to \<open>Handshaking\<close>, a fatal error to
  \<open>Failed\<close>; \<open>Established\<close> and \<open>Failed\<close> are terminal. A result is incomplete when it is
  negative, and the engine's classification is \<open>is_fatal\<close>.
\<close>

datatype hs_state = Handshaking | Established | Failed

fun spec_handshake_transition :: "(int \<Rightarrow> int) \<Rightarrow> hs_state \<Rightarrow> int \<Rightarrow> hs_state" where
  "spec_handshake_transition is_fatal Handshaking ret =
     (if 0 \<le> ret then Established
      else if is_fatal ret = 0 then Handshaking
      else Failed)"
| "spec_handshake_transition is_fatal Established ret = Established"
| "spec_handshake_transition is_fatal Failed ret = Failed"

text \<open>The state of the machine after the first k results of the negotiation step.\<close>

primrec spec_handshake_run :: "(int \<Rightarrow> int) \<Rightarrow> (nat \<Rightarrow> int) \<Rightarrow> nat \<Rightarrow> hs_state" where
  "spec_handshake_run is_fatal hs 0 = Handshaking"
| "spec_handshake_run is_fatal hs (Suc k) =
     spec_handshake_transition is_fatal (spec_handshake_run is_fatal hs k) (hs k)"

subsection \<open>Sample inputs\<close>

text \<open>
  Values for the enumerators of https.h, a setup in which the engine hands out the
  handles 11, 12 and 13, and an engine for accept that classifies -28 and -52 as
  non-fatal and every other code as fatal.
\<close>

definition example_consts :: https_consts where
  "example_consts =
     \<lparr>O_SSL_CERTIFICATE_KEY = 1, O_SSL_CERTIFICATE_CRL = 2, O_SSL_CERTIFICATE_TRUST = 3,
      O_SSL_CERTIFICATE_PKCS12 = 4, O_SSL_DER = 0x100, O_SSL_NO_DEINIT = 0x200\<rparr>"

definition example_strerror :: "int \<Rightarrow> string" where
  "example_strerror r =
     (if r = - 28 then ''Resource temporarily unavailable, try again.''
      else if r = - 12 then ''A TLS fatal alert has been received.''
      else if r = - 64 then ''Error while reading file.''
      else ''(unknown error code)'')"

definition example_setup :: "int \<Rightarrow> setup_env" where
  "example_setup r =
     \<lparr>HAVE_PTHREADS = True, new_cred = 11, new_dh = 12, new_priority = 13,
      load_result = r, setup_strerror = example_strerror\<rparr>"

definition example_is_fatal :: "int \<Rightarrow> int" where
  "example_is_fatal r = (if r = - 28 \<or> r = - 52 then 0 else 1)"

definition example_accept :: "(nat \<Rightarrow> int) \<Rightarrow> accept_env" where
  "example_accept hs =
     \<lparr>accepted = Some \<lparr>fd = 7, con_user_data = None\<rparr>, new_session = 21, new_request = 22,
      handshake_result = hs, gnutls_error_is_fatal = example_is_fatal,
      gnutls_strerror = example_strerror\<rparr>"

definition example_listen_point :: onion_listen_point where
  "example_listen_point =
     \<lparr>server = Some \<lparr>flags = 0\<rparr>, hostname = Some ''localhost'', port = Some ''4443'',
      listenfd = 5,
      op_user_data = Some \<lparr>x509_cred = 11, dh_params = 12, priority_cache = 13\<rparr>,
      op_connection_new = Some Hook_onion_https_accept_connection,
      op_free = Some Hook_onion_https_free,
      op_read = Some Hook_onion_https_read,
      op_write = Some Hook_onion_https_write,
      op_close = Some Hook_onion_https_close,
      op_read_ready = Some Hook_onion_http_read_ready\<rparr>"

section \<open>Properties\<close>

subsection \<open>The handshake loop and the state machine\<close>

lemma handshake_loop_stop:
  "\<not> handshake_again f (hs n) \<Longrightarrow>
   handshake_loop f hs s n tr = Some (hs n, tr @ [E_gnutls_handshake s (hs n)])"
  by (subst handshake_loop.simps) (simp add: Let_def)

lemma handshake_loop_again:
  "handshake_again f (hs n) \<Longrightarrow>
   handshake_loop f hs s n tr = handshake_loop f hs s (Suc n) (tr @ [E_gnutls_handshake s (hs n)])"
  by (subst handshake_loop.simps) (simp add: Let_def)

lemma handshake_events_Suc:
  "E_gnutls_handshake s (hs n) # handshake_events s hs (Suc n) k = handshake_events s hs n (Suc k)"
  by (simp add: handshake_events_def upt_rec[of n])

lemma handshake_loop_terminates:
  "(\<forall>j<k. handshake_again f (hs (n + j))) \<Longrightarrow> \<not> handshake_again f (hs (n + k)) \<Longrightarrow>
   handshake_loop f hs s n tr = Some (hs (n + k), tr @ handshake_events s hs n (Suc k))"
proof (induction k arbitrary: n tr)
  case 0
  then show ?case by (simp add: handshake_loop_stop handshake_events_def)
next
  case (Suc k)
  have a: "handshake_again f (hs n)" using Suc.prems(1)[rule_format, of 0] by simp
  have b: "\<forall>j<k. handshake_again f (hs (Suc n + j))"
  proof (intro allI impI)
    fix j assume "j < k"
    then have "handshake_again f (hs (n + Suc j))"
      using Suc.prems(1)[rule_format, of "Suc j"] by simp
    then show "handshake_again f (hs (Suc n + j))" by simp
  qed
  have c: "\<not> handshake_again f (hs (Suc n + k))" using Suc.prems(2) by simp
  show ?case
    using Suc.IH[OF b c, of "tr @ [E_gnutls_handshake s (hs n)]"]
    by (simp add: handshake_loop_again[of f hs n, OF a] handshake_events_Suc)
qed

lemma handshake_loop_SomeD_aux:
  "handshake_loop f hs s n tr = Some y \<Longrightarrow>
   \<exists>k. (\<forall>j<k. handshake_again f (hs (n + j))) \<and> \<not> handshake_again f (hs (n + k)) \<and>
       y = (hs (n + k), tr @ handshake_events s hs n (Suc k))"
proof (induction f hs s n tr y rule: handshake_loop.raw_induct[rotated 1, consumes 1])
  case (1 loop f hs s n tr y)
  show ?case
  proof (cases "handshake_again f (hs n)")
    case False
    with 1(2) have "y = (hs n, tr @ [E_gnutls_handshake s (hs n)])"
      by (auto simp add: Let_def)
    with False show ?thesis
      by (intro exI[of _ 0]) (simp add: handshake_events_def)
  next
    case True
    with 1(2) have "loop f hs s (Suc n) (tr @ [E_gnutls_handshake s (hs n)]) = Some y"
      by (simp add: Let_def)
    from 1(1)[OF this] obtain k where kk:
      "(\<forall>j<k. handshake_again f (hs (Suc n + j))) \<and>
       \<not> handshake_again f (hs (Suc n + k)) \<and>
       y = (hs (Suc n + k),
            (tr @ [E_gnutls_handshake s (hs n)]) @ handshake_events s hs (Suc n) (Suc k))" ..
    then have k: "\<forall>j<k. handshake_again f (hs (Suc n + j))"
      "\<not> handshake_again f (hs (Suc n + k))"
      "y = (hs (Suc n + k),
            (tr @ [E_gnutls_handshake s (hs n)]) @ handshake_events s hs (Suc n) (Suc k))"
      by simp_all
    have "\<forall>j<Suc k. handshake_again f (hs (n + j))"
    proof (intro allI impI)
      fix j assume "j < Suc k"
      show "handshake_again f (hs (n + j))"
      proof (cases j)
        case 0 then show ?thesis using True by simp
      next
        case (Suc i)
        then have "i < k" using \<open>j < Suc k\<close> by simp
        then show ?thesis using k(1) Suc by simp
      qed
    qed
    moreover have "y = (hs (n + Suc k), tr @ handshake_events s hs n (Suc (Suc k)))"
      using k(3) handshake_events_Suc[of s hs n "Suc k"] by simp
    ultimately show ?thesis using k(2)
      by (intro exI[of _ "Suc k"]) simp
  qed
qed

lemma handshake_loop_Some_iff:
  "handshake_loop f hs s n tr = Some y \<longleftrightarrow>
   (\<exists>k. (\<forall>j<k. handshake_again f (hs (n + j))) \<and> \<not> handshake_again f (hs (n + k)) \<and>
        y = (hs (n + k), tr @ handshake_events s hs n (Suc k)))"
  using handshake_loop_SomeD_aux[of f hs s n tr y] handshake_loop_terminates[of _ f hs n s tr]
  by auto

lemma handshake_loop_None_iff:
  "handshake_loop f hs s n tr = None \<longleftrightarrow> (\<forall>j. handshake_again f (hs (n + j)))"
proof
  assume N: "handshake_loop f hs s n tr = None"
  show "\<forall>j. handshake_again f (hs (n + j))"
  proof (rule ccontr)
    assume "\<not> (\<forall>j. handshake_again f (hs (n + j)))"
    then have ex: "\<exists>j. \<not> handshake_again f (hs (n + j))" by simp
    define k where "k = (LEAST j. \<not> handshake_again f (hs (n + j)))"
    have k1: "\<not> handshake_again f (hs (n + k))"
      unfolding k_def using ex by (rule LeastI_ex)
    have k2: "\<forall>j<k. handshake_again f (hs (n + j))"
      unfolding k_def using not_less_Least by blast
    from handshake_loop_terminates[OF k2 k1, of s tr] N show False by simp
  qed
next
  assume A: "\<forall>j. handshake_again f (hs (n + j))"
  show "handshake_loop f hs s n tr = None"
  proof (cases "handshake_loop f hs s n tr")
    case None then show ?thesis .
  next
    case (Some y)
    from handshake_loop_SomeD_aux[OF this] A show ?thesis by blast
  qed
qed

lemma spec_run_Handshaking:
  "spec_handshake_run f hs k = Handshaking \<longleftrightarrow> (\<forall>j<k. handshake_again f (hs j))"
proof (induction k)
  case 0 show ?case by simp
next
  case (Suc k)
  show ?case
  proof (cases "spec_handshake_run f hs k")
    case Handshaking
    with Suc have "\<forall>j<k. handshake_again f (hs j)" by simp
    then have "(\<forall>j<Suc k. handshake_again f (hs j)) \<longleftrightarrow> handshake_again f (hs k)"
      by (auto simp: less_Suc_eq)
    then show ?thesis using Handshaking by (auto simp: handshake_again_def)
  next
    case Established
    with Suc have "\<not> (\<forall>j<k. handshake_again f (hs j))" by simp
    then have "\<not> (\<forall>j<Suc k. handshake_again f (hs j))" by (auto simp: less_Suc_eq)
    then show ?thesis using Established by simp
  next
    case Failed
    with Suc have "\<not> (\<forall>j<k. handshake_again f (hs j))" by simp
    then have "\<not> (\<forall>j<Suc k. handshake_again f (hs j))" by (auto simp: less_Suc_eq)
    then show ?thesis using Failed by simp
  qed
qed

lemma spec_run_terminal_stays:
  "spec_handshake_run f hs k = st \<Longrightarrow> st \<noteq> Handshaking \<Longrightarrow> k \<le> m \<Longrightarrow>
   spec_handshake_run f hs m = st"
proof (induction m)
  case 0 then show ?case by simp
next
  case (Suc m)
  show ?case
  proof (cases "k = Suc m")
    case True with Suc.prems show ?thesis by simp
  next
    case False
    with Suc.prems have "k \<le> m" by simp
    from Suc.IH[OF Suc.prems(1,2) this] Suc.prems(2) show ?thesis
      by (cases st) simp_all
  qed
qed

lemma spec_run_stop:
  "(\<forall>j<k. handshake_again f (hs j)) \<Longrightarrow> \<not> handshake_again f (hs k) \<Longrightarrow>
   spec_handshake_run f hs (Suc k) = (if hs k < 0 then Failed else Established)"
  using spec_run_Handshaking[of f hs k] by (auto simp: handshake_again_def)

lemma spec_run_first_stop:
  assumes "spec_handshake_run f hs m \<noteq> Handshaking"
  shows "\<exists>k<m. (\<forall>j<k. handshake_again f (hs j)) \<and> \<not> handshake_again f (hs k) \<and>
           spec_handshake_run f hs m = (if hs k < 0 then Failed else Established)"
proof -
  from assms have "\<not> (\<forall>j<m. handshake_again f (hs j))"
    using spec_run_Handshaking[of f hs m] by simp
  then have ex: "\<exists>j. \<not> handshake_again f (hs j)" by blast
  define k where "k = (LEAST j. \<not> handshake_again f (hs j))"
  have k1: "\<not> handshake_again f (hs k)"
    unfolding k_def using ex LeastI_ex[of "\<lambda>j. \<not> handshake_again f (hs j)"] by simp
  have k2: "\<forall>j<k. handshake_again f (hs j)"
    unfolding k_def using not_less_Least by blast
  have km: "k < m"
  proof (rule ccontr)
    assume "\<not> k < m"
    then have "\<forall>j<m. handshake_again f (hs j)" using k2 by simp
    with \<open>\<not> (\<forall>j<m. handshake_again f (hs j))\<close> show False by simp
  qed
  have st: "spec_handshake_run f hs (Suc k) = (if hs k < 0 then Failed else Established)"
    using spec_run_stop[OF k2 k1] .
  have "spec_handshake_run f hs m = (if hs k < 0 then Failed else Established)"
    by (rule spec_run_terminal_stays[OF st]) (use km in auto)
  with km k1 k2 show ?thesis by blast
qed

lemma accept_unfold:
  assumes "accepted E = Some oc" and "op_user_data op = Some https"
  shows "onion_https_accept_connection E op tr =
    (case handshake_loop (gnutls_error_is_fatal E) (handshake_result E) (new_session E) 0
            (tr @ accept_setup_events oc (new_session E) https) of
       None \<Rightarrow> None
     | Some (ret, tr4) \<Rightarrow>
         if ret < 0 then
           Some (Inr None,
                 tr4 @ [ONION_ERROR ''Handshake has failed (%s)'' [ArgStr (gnutls_strerror E ret)],
                        E_onion_connection_free oc])
         else
           Some (Inr (Some (oc\<lparr>con_user_data := Some \<lparr>req = new_request E, session = new_session E\<rparr>\<rparr>)),
                 tr4 @ [E_malloc_onion_https_connection,
                        E_onion_request_new oc (new_request E),
                        ONION_DEBUG ''Connection session %p, oc %p''
                          [ArgPtr (new_session E), ArgInt (fd oc)]]))"
  using assms
  by (simp add: onion_https_accept_connection_def accept_setup_events_def Let_def
           split: option.splits prod.splits)

lemma accept_stops:
  assumes "accepted E = Some oc" and "op_user_data op = Some https"
    and "\<forall>j<k. handshake_again (gnutls_error_is_fatal E) (handshake_result E j)"
    and "\<not> handshake_again (gnutls_error_is_fatal E) (handshake_result E k)"
  shows "onion_https_accept_connection E op tr =
    (if handshake_result E k < 0 then
       Some (Inr None,
             tr @ accept_setup_events oc (new_session E) https
                @ handshake_events (new_session E) (handshake_result E) 0 (Suc k)
                @ [ONION_ERROR ''Handshake has failed (%s)''
                     [ArgStr (gnutls_strerror E (handshake_result E k))],
                   E_onion_connection_free oc])
     else
       Some (Inr (Some (oc\<lparr>con_user_data := Some \<lparr>req = new_request E, session = new_session E\<rparr>\<rparr>)),
             tr @ accept_setup_events oc (new_session E) https
                @ handshake_events (new_session E) (handshake_result E) 0 (Suc k)
                @ [E_malloc_onion_https_connection,
                   E_onion_request_new oc (new_request E),
                   ONION_DEBUG ''Connection session %p, oc %p''
                     [ArgPtr (new_session E), ArgInt (fd oc)]]))"
proof -
  have "handshake_loop (gnutls_error_is_fatal E) (handshake_result E) (new_session E) 0
          (tr @ accept_setup_events oc (new_session E) https) =
        Some (handshake_result E k,
              (tr @ accept_setup_events oc (new_session E) https)
                @ handshake_events (new_session E) (handshake_result E) 0 (Suc k))"
    using handshake_loop_terminates[of k "gnutls_error_is_fatal E" "handshake_result E" 0
            "new_session E" "tr @ accept_setup_events oc (new_session E) https"] assms(3,4)
    by simp
  then show ?thesis
    by (simp add: accept_unfold[OF assms(1,2)])
qed

lemma accept_None_iff:
  assumes "accepted E = Some oc" and "op_user_data op = Some https"
  shows "onion_https_accept_connection E op tr = None \<longleftrightarrow>
         (\<forall>j. handshake_again (gnutls_error_is_fatal E) (handshake_result E j))"
proof -
  have "onion_https_accept_connection E op tr = None \<longleftrightarrow>
        handshake_loop (gnutls_error_is_fatal E) (handshake_result E) (new_session E) 0
            (tr @ accept_setup_events oc (new_session E) https) = None"
    by (simp add: accept_unfold[OF assms] split: option.splits prod.splits)
  then show ?thesis
    by (simp add: handshake_loop_None_iff)
qed

lemma first_stop:
  assumes "\<not> handshake_again f (hs (m::nat))"
  shows "\<exists>k. (\<forall>j<k. handshake_again f (hs j)) \<and> \<not> handshake_again f (hs k)"
proof -
  define k where "k = (LEAST j. \<not> handshake_again f (hs j))"
  from assms have ex: "\<exists>j. \<not> handshake_again f (hs j)" by blast
  have "\<not> handshake_again f (hs k)"
    unfolding k_def using ex LeastI_ex[of "\<lambda>j. \<not> handshake_again f (hs j)"] by simp
  moreover have "\<forall>j<k. handshake_again f (hs j)"
    unfolding k_def using not_less_Least by blast
  ultimately show ?thesis by blast
qed

text \<open>
  C2. The loop calls the negotiation step again exactly while the result is negative and
  the engine classifies it as non-fatal: it returns after round k of those it runs iff
  the k rounds before all said "again" and round k did not. "Again" is the transition
  \<open>Handshaking \<rightarrow> Handshaking\<close> of the specification's state machine, and accept follows
  that machine: it never returns iff the machine stays in \<open>Handshaking\<close> for ever, it
  returns a connection iff the machine reaches \<open>Established\<close>, and it returns NULL iff
  the machine reaches \<open>Failed\<close>. When round k is the first that does not say "again",
  the machine is in \<open>Handshaking\<close> before it and in \<open>Failed\<close> or \<open>Established\<close> after
  it, and accept appends to its trace the calls before the loop, exactly the k + 1 calls
  of \<open>gnutls_handshake\<close> with the results of rounds 0 to k, and then the calls of the
  failure path (result NULL) or of the success path (result the connection with its
  data attached).
\<close>

theorem accept_handshake_state_machine:
  assumes "accepted E = Some oc" and "op_user_data op = Some https"
  shows
    "(\<forall>s n tr0 y.
        handshake_loop (gnutls_error_is_fatal E) (handshake_result E) s n tr0 = Some y \<longleftrightarrow>
        (\<exists>k. (\<forall>j<k. handshake_again (gnutls_error_is_fatal E) (handshake_result E (n + j))) \<and>
             \<not> handshake_again (gnutls_error_is_fatal E) (handshake_result E (n + k)) \<and>
             y = (handshake_result E (n + k),
                  tr0 @ handshake_events s (handshake_result E) n (Suc k)))) \<and>
     (\<forall>r. handshake_again (gnutls_error_is_fatal E) r \<longleftrightarrow>
          spec_handshake_transition (gnutls_error_is_fatal E) Handshaking r = Handshaking) \<and>
     (onion_https_accept_connection E op tr = None \<longleftrightarrow>
        (\<forall>k. spec_handshake_run (gnutls_error_is_fatal E) (handshake_result E) k = Handshaking)) \<and>
     ((\<exists>c tr'. onion_https_accept_connection E op tr = Some (Inr (Some c), tr')) \<longleftrightarrow>
        (\<exists>k. spec_handshake_run (gnutls_error_is_fatal E) (handshake_result E) k = Established)) \<and>
     ((\<exists>tr'. onion_https_accept_connection E op tr = Some (Inr None, tr')) \<longleftrightarrow>
        (\<exists>k. spec_handshake_run (gnutls_error_is_fatal E) (handshake_result E) k = Failed)) \<and>
     (\<forall>k. (\<forall>j<k. handshake_again (gnutls_error_is_fatal E) (handshake_result E j)) \<and>
          \<not> handshake_again (gnutls_error_is_fatal E) (handshake_result E k) \<longrightarrow>
          spec_handshake_run (gnutls_error_is_fatal E) (handshake_result E) k = Handshaking \<and>
          spec_handshake_run (gnutls_error_is_fatal E) (handshake_result E) (Suc k) =
            (if handshake_result E k < 0 then Failed else Established) \<and>
          onion_https_accept_connection E op tr =
            (if handshake_result E k < 0 then
               Some (Inr None,
                     tr @ accept_setup_events oc (new_session E) https
                        @ handshake_events (new_session E) (handshake_result E) 0 (Suc k)
                        @ [ONION_ERROR ''Handshake has failed (%s)''
                             [ArgStr (gnutls_strerror E (handshake_result E k))],
                           E_onion_connection_free oc])
             else
               Some (Inr (Some (oc\<lparr>con_user_data :=
                                     Some \<lparr>req = new_request E, session = new_session E\<rparr>\<rparr>)),
                     tr @ accept_setup_events oc (new_session E) https
                        @ handshake_events (new_session E) (handshake_result E) 0 (Suc k)
                        @ [E_malloc_onion_https_connection,
                           E_onion_request_new oc (new_request E),
                           ONION_DEBUG ''Connection session %p, oc %p''
                             [ArgPtr (new_session E), ArgInt (fd oc)]])))"
proof -
  let ?f = "gnutls_error_is_fatal E" and ?hs = "handshake_result E"
  have A: "\<forall>s n tr0 y.
        handshake_loop ?f ?hs s n tr0 = Some y \<longleftrightarrow>
        (\<exists>k. (\<forall>j<k. handshake_again ?f (?hs (n + j))) \<and> \<not> handshake_again ?f (?hs (n + k)) \<and>
             y = (?hs (n + k), tr0 @ handshake_events s ?hs n (Suc k)))"
    by (intro allI) (rule handshake_loop_Some_iff)
  have B: "\<forall>r. handshake_again ?f r \<longleftrightarrow> spec_handshake_transition ?f Handshaking r = Handshaking"
    by (auto simp: handshake_again_def)
  have C: "onion_https_accept_connection E op tr = None \<longleftrightarrow>
        (\<forall>k. spec_handshake_run ?f ?hs k = Handshaking)"
  proof -
    have "(\<forall>k. spec_handshake_run ?f ?hs k = Handshaking) \<longleftrightarrow> (\<forall>j. handshake_again ?f (?hs j))"
      unfolding spec_run_Handshaking by blast
    then show ?thesis by (simp add: accept_None_iff[OF assms])
  qed
  have D: "(\<exists>c tr'. onion_https_accept_connection E op tr = Some (Inr (Some c), tr')) \<longleftrightarrow>
        (\<exists>k. spec_handshake_run ?f ?hs k = Established)"
  proof
    assume "\<exists>c tr'. onion_https_accept_connection E op tr = Some (Inr (Some c), tr')"
    then obtain c tr' where S: "onion_https_accept_connection E op tr = Some (Inr (Some c), tr')"
      by blast
    then have "\<not> (\<forall>j. handshake_again ?f (?hs j))"
      using accept_None_iff[OF assms, of tr] by simp
    then obtain m where "\<not> handshake_again ?f (?hs m)" by blast
    from first_stop[of ?f ?hs m, OF this] obtain k where
      k: "\<forall>j<k. handshake_again ?f (?hs j)" "\<not> handshake_again ?f (?hs k)" by blast
    from accept_stops[OF assms k, of tr] S have "\<not> ?hs k < 0"
      by (auto split: if_splits)
    with spec_run_stop[OF k] show "\<exists>k. spec_handshake_run ?f ?hs k = Established"
      by (intro exI[of _ "Suc k"]) simp
  next
    assume "\<exists>k. spec_handshake_run ?f ?hs k = Established"
    then obtain m where "spec_handshake_run ?f ?hs m = Established" by blast
    with spec_run_first_stop[of ?f ?hs m] obtain k where
      k: "\<forall>j<k. handshake_again ?f (?hs j)" "\<not> handshake_again ?f (?hs k)"
      and e: "Established = (if ?hs k < 0 then Failed else Established)"
      by auto
    from e have "\<not> ?hs k < 0" by (auto split: if_splits)
    with accept_stops[OF assms k, of tr]
    show "\<exists>c tr'. onion_https_accept_connection E op tr = Some (Inr (Some c), tr')"
      by simp
  qed
  have F: "(\<exists>tr'. onion_https_accept_connection E op tr = Some (Inr None, tr')) \<longleftrightarrow>
        (\<exists>k. spec_handshake_run ?f ?hs k = Failed)"
  proof
    assume "\<exists>tr'. onion_https_accept_connection E op tr = Some (Inr None, tr')"
    then obtain tr' where S: "onion_https_accept_connection E op tr = Some (Inr None, tr')"
      by blast
    then have "\<not> (\<forall>j. handshake_again ?f (?hs j))"
      using accept_None_iff[OF assms, of tr] by simp
    then obtain m where "\<not> handshake_again ?f (?hs m)" by blast
    from first_stop[of ?f ?hs m, OF this] obtain k where
      k: "\<forall>j<k. handshake_again ?f (?hs j)" "\<not> handshake_again ?f (?hs k)" by blast
    from accept_stops[OF assms k, of tr] S have "?hs k < 0"
      by (auto split: if_splits)
    with spec_run_stop[OF k] show "\<exists>k. spec_handshake_run ?f ?hs k = Failed"
      by (intro exI[of _ "Suc k"]) simp
  next
    assume "\<exists>k. spec_handshake_run ?f ?hs k = Failed"
    then obtain m where "spec_handshake_run ?f ?hs m = Failed" by blast
    with spec_run_first_stop[of ?f ?hs m] obtain k where
      k: "\<forall>j<k. handshake_again ?f (?hs j)" "\<not> handshake_again ?f (?hs k)"
      and e: "Failed = (if ?hs k < 0 then Failed else Established)"
      by auto
    from e have "?hs k < 0" by (auto split: if_splits)
    with accept_stops[OF assms k, of tr]
    show "\<exists>tr'. onion_https_accept_connection E op tr = Some (Inr None, tr')"
      by simp
  qed
  have G: "\<forall>k. (\<forall>j<k. handshake_again ?f (?hs j)) \<and> \<not> handshake_again ?f (?hs k) \<longrightarrow>
          spec_handshake_run ?f ?hs k = Handshaking \<and>
          spec_handshake_run ?f ?hs (Suc k) = (if ?hs k < 0 then Failed else Established) \<and>
          onion_https_accept_connection E op tr =
            (if ?hs k < 0 then
               Some (Inr None,
                     tr @ accept_setup_events oc (new_session E) https
                        @ handshake_events (new_session E) ?hs 0 (Suc k)
                        @ [ONION_ERROR ''Handshake has failed (%s)''
                             [ArgStr (gnutls_strerror E (?hs k))],
                           E_onion_connection_free oc])
             else
               Some (Inr (Some (oc\<lparr>con_user_data :=
                                     Some \<lparr>req = new_request E, session = new_session E\<rparr>\<rparr>)),
                     tr @ accept_setup_events oc (new_session E) https
                        @ handshake_events (new_session E) ?hs 0 (Suc k)
                        @ [E_malloc_onion_https_connection,
                           E_onion_request_new oc (new_request E),
                           ONION_DEBUG ''Connection session %p, oc %p''
                             [ArgPtr (new_session E), ArgInt (fd oc)]]))"
  proof (intro allI impI)
    fix k
    assume "(\<forall>j<k. handshake_again ?f (?hs j)) \<and> \<not> handshake_again ?f (?hs k)"
    then have k: "\<forall>j<k. handshake_again ?f (?hs j)" "\<not> handshake_again ?f (?hs k)"
      by simp_all
    have g1: "spec_handshake_run ?f ?hs k = Handshaking"
      using k(1) by (simp add: spec_run_Handshaking)
    have g2: "spec_handshake_run ?f ?hs (Suc k) = (if ?hs k < 0 then Failed else Established)"
      by (rule spec_run_stop[OF k])
    note g3 = accept_stops[OF assms k, of tr]
    from g1 g2 g3
    show "spec_handshake_run ?f ?hs k = Handshaking \<and>
          spec_handshake_run ?f ?hs (Suc k) = (if ?hs k < 0 then Failed else Established) \<and>
          onion_https_accept_connection E op tr =
            (if ?hs k < 0 then
               Some (Inr None,
                     tr @ accept_setup_events oc (new_session E) https
                        @ handshake_events (new_session E) ?hs 0 (Suc k)
                        @ [ONION_ERROR ''Handshake has failed (%s)''
                             [ArgStr (gnutls_strerror E (?hs k))],
                           E_onion_connection_free oc])
             else
               Some (Inr (Some (oc\<lparr>con_user_data :=
                                     Some \<lparr>req = new_request E, session = new_session E\<rparr>\<rparr>)),
                     tr @ accept_setup_events oc (new_session E) https
                        @ handshake_events (new_session E) ?hs 0 (Suc k)
                        @ [E_malloc_onion_https_connection,
                           E_onion_request_new oc (new_request E),
                           ONION_DEBUG ''Connection session %p, oc %p''
                             [ArgPtr (new_session E), ArgInt (fd oc)]]))"
      by (intro conjI)
  qed
  from A B C D F G show ?thesis by (intro conjI)
qed

text \<open>
  An engine that answers "again" (-28) twice and then 0: the machine is in
  \<open>Established\<close> after three results, and accept, entered with a trace that already
  holds one call, returns the connection after exactly three calls of
  \<open>gnutls_handshake\<close>.
\<close>

theorem accept_handshake_state_machine_witness:
  "accepted (example_accept (\<lambda>n. if n < 2 then - 28 else 0)) = Some \<lparr>fd = 7, con_user_data = None\<rparr> \<and>
   op_user_data example_listen_point = Some \<lparr>x509_cred = 11, dh_params = 12, priority_cache = 13\<rparr> \<and>
   spec_handshake_run example_is_fatal (\<lambda>n. if n < 2 then - 28 else 0) 2 = Handshaking \<and>
   spec_handshake_run example_is_fatal (\<lambda>n. if n < 2 then - 28 else 0) 3 = Established \<and>
   onion_https_accept_connection (example_accept (\<lambda>n. if n < 2 then - 28 else 0))
     example_listen_point [E_gnutls_global_init] =
   Some (Inr (Some \<lparr>fd = 7, con_user_data = Some \<lparr>req = 22, session = 21\<rparr>\<rparr>),
         [E_gnutls_global_init,
          E_onion_connection_new_from_socket (Some \<lparr>fd = 7, con_user_data = None\<rparr>),
          ONION_DEBUG ''Socket fd %d'' [ArgInt 7],
          E_gnutls_init 21,
          E_gnutls_priority_set 21 13,
          E_gnutls_credentials_set 21 11,
          E_gnutls_certificate_server_set_request 21,
          E_gnutls_session_enable_compatibility_mode 21,
          E_gnutls_transport_set_ptr 21 7,
          E_gnutls_handshake 21 (- 28),
          E_gnutls_handshake 21 (- 28),
          E_gnutls_handshake 21 0,
          E_malloc_onion_https_connection,
          E_onion_request_new \<lparr>fd = 7, con_user_data = None\<rparr> 22,
          ONION_DEBUG ''Connection session %p, oc %p'' [ArgPtr 21, ArgInt 7]])"
proof -
  let ?E = "example_accept (\<lambda>n. if n < 2 then - 28 else 0)"
  have a: "accepted ?E = Some \<lparr>fd = 7, con_user_data = None\<rparr>"
    by (simp add: example_accept_def)
  have b: "op_user_data example_listen_point = Some \<lparr>x509_cred = 11, dh_params = 12, priority_cache = 13\<rparr>"
    by (simp add: example_listen_point_def)
  have f: "gnutls_error_is_fatal ?E = example_is_fatal"
    "handshake_result ?E = (\<lambda>n. if n < 2 then - 28 else 0)"
    by (simp_all add: example_accept_def)
  have c: "(\<forall>j<2. handshake_again (gnutls_error_is_fatal ?E) (handshake_result ?E j)) \<and>
           \<not> handshake_again (gnutls_error_is_fatal ?E) (handshake_result ?E 2)"
    by (simp add: f example_is_fatal_def handshake_again_def)
  have g: "\<forall>k. (\<forall>j<k. handshake_again (gnutls_error_is_fatal ?E) (handshake_result ?E j)) \<and>
          \<not> handshake_again (gnutls_error_is_fatal ?E) (handshake_result ?E k) \<longrightarrow>
          spec_handshake_run (gnutls_error_is_fatal ?E) (handshake_result ?E) k = Handshaking \<and>
          spec_handshake_run (gnutls_error_is_fatal ?E) (handshake_result ?E) (Suc k) =
            (if handshake_result ?E k < 0 then Failed else Established) \<and>
          onion_https_accept_connection ?E example_listen_point [E_gnutls_global_init] =
            (if handshake_result ?E k < 0 then
               Some (Inr None,
                     [E_gnutls_global_init]
                        @ accept_setup_events \<lparr>fd = 7, con_user_data = None\<rparr> (new_session ?E)
                            \<lparr>x509_cred = 11, dh_params = 12, priority_cache = 13\<rparr>
                        @ handshake_events (new_session ?E) (handshake_result ?E) 0 (Suc k)
                        @ [ONION_ERROR ''Handshake has failed (%s)''
                             [ArgStr (gnutls_strerror ?E (handshake_result ?E k))],
                           E_onion_connection_free \<lparr>fd = 7, con_user_data = None\<rparr>])
             else
               Some (Inr (Some (\<lparr>fd = 7, con_user_data = None\<rparr>\<lparr>con_user_data :=
                                     Some \<lparr>req = new_request ?E, session = new_session ?E\<rparr>\<rparr>)),
                     [E_gnutls_global_init]
                        @ accept_setup_events \<lparr>fd = 7, con_user_data = None\<rparr> (new_session ?E)
                            \<lparr>x509_cred = 11, dh_params = 12, priority_cache = 13\<rparr>
                        @ handshake_events (new_session ?E) (handshake_result ?E) 0 (Suc k)
                        @ [E_malloc_onion_https_connection,
                           E_onion_request_new \<lparr>fd = 7, con_user_data = None\<rparr> (new_request ?E),
                           ONION_DEBUG ''Connection session %p, oc %p''
                             [ArgPtr (new_session ?E), ArgInt (fd \<lparr>fd = 7, con_user_data = None\<rparr>)]]))"
    using accept_handshake_state_machine[OF a b, of "[E_gnutls_global_init]"] by blast
  from g[rule_format, OF c]
  have "spec_handshake_run example_is_fatal (\<lambda>n. if n < 2 then - 28 else 0) 2 = Handshaking \<and>
   spec_handshake_run example_is_fatal (\<lambda>n. if n < 2 then - 28 else 0) 3 = Established \<and>
   onion_https_accept_connection ?E example_listen_point [E_gnutls_global_init] =
   Some (Inr (Some \<lparr>fd = 7, con_user_data = Some \<lparr>req = 22, session = 21\<rparr>\<rparr>),
         [E_gnutls_global_init,
          E_onion_connection_new_from_socket (Some \<lparr>fd = 7, con_user_data = None\<rparr>),
          ONION_DEBUG ''Socket fd %d'' [ArgInt 7],
          E_gnutls_init 21,
          E_gnutls_priority_set 21 13,
          E_gnutls_credentials_set 21 11,
          E_gnutls_certificate_server_set_request 21,
          E_gnutls_session_enable_compatibility_mode 21,
          E_gnutls_transport_set_ptr 21 7,
          E_gnutls_handshake 21 (- 28),
          E_gnutls_handshake 21 (- 28),
          E_gnutls_handshake 21 0,
          E_malloc_onion_https_connection,
          E_onion_request_new \<lparr>fd = 7, con_user_data = None\<rparr> 22,
          ONION_DEBUG ''Connection session %p, oc %p'' [ArgPtr 21, ArgInt 7]])"
    by (simp add: example_accept_def accept_setup_events_def handshake_events_def upt_rec
          numeral_2_eq_2 numeral_3_eq_3)
  with a b show ?thesis by simp
qed

subsection \<open>A handshake that fails\<close>

text \<open>
  C1. When the raw connection was accepted and the handshake ends with a fatal error
  (after any number k of "again" rounds), accept returns NULL, and the last two things
  it does are to log \<open>gnutls_strerror\<close> of the engine's code and to release the raw
  connection with \<open>onion_connection_free\<close>. No request is created and no connection is
  handed to the caller.
\<close>

theorem accept_fatal_handshake_releases_connection:
  assumes "accepted E = Some oc" and "op_user_data op = Some https"
    and "\<forall>j<k. handshake_again (gnutls_error_is_fatal E) (handshake_result E j)"
    and "handshake_result E k < 0" and "gnutls_error_is_fatal E (handshake_result E k) \<noteq> 0"
  shows "onion_https_accept_connection E op tr =
           Some (Inr None,
                 tr @ accept_setup_events oc (new_session E) https
                    @ handshake_events (new_session E) (handshake_result E) 0 (Suc k)
                    @ [ONION_ERROR ''Handshake has failed (%s)''
                         [ArgStr (gnutls_strerror E (handshake_result E k))],
                       E_onion_connection_free oc])"
proof -
  have "\<not> handshake_again (gnutls_error_is_fatal E) (handshake_result E k)"
    using assms(5) by (simp add: handshake_again_def)
  from accept_stops[OF assms(1,2,3) this, of tr] assms(4) show ?thesis by simp
qed

text \<open>Two rounds of "again", then the fatal code -12.\<close>

theorem accept_fatal_handshake_releases_connection_witness:
  "onion_https_accept_connection (example_accept (\<lambda>n. if n < 2 then - 28 else - 12))
     example_listen_point [] =
   Some (Inr None,
         [E_onion_connection_new_from_socket (Some \<lparr>fd = 7, con_user_data = None\<rparr>),
          ONION_DEBUG ''Socket fd %d'' [ArgInt 7],
          E_gnutls_init 21,
          E_gnutls_priority_set 21 13,
          E_gnutls_credentials_set 21 11,
          E_gnutls_certificate_server_set_request 21,
          E_gnutls_session_enable_compatibility_mode 21,
          E_gnutls_transport_set_ptr 21 7,
          E_gnutls_handshake 21 (- 28),
          E_gnutls_handshake 21 (- 28),
          E_gnutls_handshake 21 (- 12),
          ONION_ERROR ''Handshake has failed (%s)'' [ArgStr ''A TLS fatal alert has been received.''],
          E_onion_connection_free \<lparr>fd = 7, con_user_data = None\<rparr>])"
proof -
  let ?E = "example_accept (\<lambda>n. if n < 2 then - 28 else - 12)"
  have a: "accepted ?E = Some \<lparr>fd = 7, con_user_data = None\<rparr>"
    by (simp add: example_accept_def)
  have b: "op_user_data example_listen_point = Some \<lparr>x509_cred = 11, dh_params = 12, priority_cache = 13\<rparr>"
    by (simp add: example_listen_point_def)
  have c: "\<forall>j<2. handshake_again (gnutls_error_is_fatal ?E) (handshake_result ?E j)"
    by (simp add: example_accept_def example_is_fatal_def handshake_again_def)
  have d: "handshake_result ?E 2 < 0"
    by (simp add: example_accept_def)
  have e: "gnutls_error_is_fatal ?E (handshake_result ?E 2) \<noteq> 0"
    by (simp add: example_accept_def example_is_fatal_def)
  show ?thesis
    using accept_fatal_handshake_releases_connection[OF a b c d e, of "[]"]
    by (simp add: example_accept_def example_strerror_def accept_setup_events_def
          handshake_events_def upt_rec numeral_2_eq_2 numeral_3_eq_3)
qed

text \<open>
  Whenever the handshake ends with a negative result, the session that \<open>gnutls_init\<close>
  created is not passed to \<open>gnutls_deinit\<close> before accept returns.
\<close>

lemma accept_failure_never_deinits:
  assumes "accepted E = Some oc" and "op_user_data op = Some https"
    and "\<forall>j<k. handshake_again (gnutls_error_is_fatal E) (handshake_result E j)"
    and "\<not> handshake_again (gnutls_error_is_fatal E) (handshake_result E k)"
    and "handshake_result E k < 0"
  shows "\<exists>evs. onion_https_accept_connection E op tr = Some (Inr None, tr @ evs) \<and>
               E_gnutls_init (new_session E) \<in> set evs \<and>
               E_gnutls_deinit (new_session E) \<notin> set evs"
proof -
  let ?evs = "accept_setup_events oc (new_session E) https
                @ handshake_events (new_session E) (handshake_result E) 0 (Suc k)
                @ [ONION_ERROR ''Handshake has failed (%s)''
                     [ArgStr (gnutls_strerror E (handshake_result E k))],
                   E_onion_connection_free oc]"
  have "onion_https_accept_connection E op tr = Some (Inr None, tr @ ?evs)"
    using accept_stops[OF assms(1,2,3,4), of tr] assms(5) by simp
  moreover have "E_gnutls_init (new_session E) \<in> set ?evs"
    by (simp add: accept_setup_events_def)
  moreover have "E_gnutls_deinit (new_session E) \<notin> set ?evs"
    by (auto simp add: accept_setup_events_def handshake_events_def)
  ultimately show ?thesis by blast
qed

text \<open>
  C9. Every session that accept creates should be released, so that a failed accept
  leaves no session allocated. The code does not do that. With an engine whose first
  handshake result is the fatal code -12, accept runs \<open>gnutls_init\<close> on session 21 and
  returns NULL after \<open>onion_connection_free\<close>, and \<open>gnutls_deinit\<close> is never called
  on the session. The handle lives only in the local variable \<open>session\<close>: the
  connection passed to \<open>onion_connection_free\<close> has no per-connection data yet, so
  nothing that receives the connection can reach the session. The only call of
  \<open>gnutls_deinit\<close> in the file is in \<open>onion_https_close\<close>, behind that data.
\<close>

theorem accept_fatal_handshake_leaks_session:
  "onion_https_accept_connection (example_accept (\<lambda>n. - 12)) example_listen_point [] =
   Some (Inr None,
         [E_onion_connection_new_from_socket (Some \<lparr>fd = 7, con_user_data = None\<rparr>),
          ONION_DEBUG ''Socket fd %d'' [ArgInt 7],
          E_gnutls_init 21,
          E_gnutls_priority_set 21 13,
          E_gnutls_credentials_set 21 11,
          E_gnutls_certificate_server_set_request 21,
          E_gnutls_session_enable_compatibility_mode 21,
          E_gnutls_transport_set_ptr 21 7,
          E_gnutls_handshake 21 (- 12),
          ONION_ERROR ''Handshake has failed (%s)'' [ArgStr ''A TLS fatal alert has been received.''],
          E_onion_connection_free \<lparr>fd = 7, con_user_data = None\<rparr>]) \<and>
   E_gnutls_init 21 \<in> set (snd (the (onion_https_accept_connection
                                       (example_accept (\<lambda>n. - 12)) example_listen_point []))) \<and>
   E_gnutls_deinit 21 \<notin> set (snd (the (onion_https_accept_connection
                                       (example_accept (\<lambda>n. - 12)) example_listen_point [])))"
proof -
  let ?E = "example_accept (\<lambda>n. - 12)"
  have a: "accepted ?E = Some \<lparr>fd = 7, con_user_data = None\<rparr>"
    by (simp add: example_accept_def)
  have b: "op_user_data example_listen_point = Some \<lparr>x509_cred = 11, dh_params = 12, priority_cache = 13\<rparr>"
    by (simp add: example_listen_point_def)
  have c: "\<forall>j<0. handshake_again (gnutls_error_is_fatal ?E) (handshake_result ?E j)"
    by simp
  have d: "\<not> handshake_again (gnutls_error_is_fatal ?E) (handshake_result ?E 0)"
    by (simp add: example_accept_def example_is_fatal_def handshake_again_def)
  have "onion_https_accept_connection ?E example_listen_point [] =
   Some (Inr None,
         [E_onion_connection_new_from_socket (Some \<lparr>fd = 7, con_user_data = None\<rparr>),
          ONION_DEBUG ''Socket fd %d'' [ArgInt 7],
          E_gnutls_init 21,
          E_gnutls_priority_set 21 13,
          E_gnutls_credentials_set 21 11,
          E_gnutls_certificate_server_set_request 21,
          E_gnutls_session_enable_compatibility_mode 21,
          E_gnutls_transport_set_ptr 21 7,
          E_gnutls_handshake 21 (- 12),
          ONION_ERROR ''Handshake has failed (%s)'' [ArgStr ''A TLS fatal alert has been received.''],
          E_onion_connection_free \<lparr>fd = 7, con_user_data = None\<rparr>])"
    using accept_stops[OF a b c d, of "[]"]
    by (simp add: example_accept_def example_strerror_def accept_setup_events_def
          handshake_events_def)
  then show ?thesis by simp
qed

subsection \<open>Closing\<close>

text \<open>
  C3. After any close the per-connection data is detached, and close on a connection
  whose data is detached makes one call, \<open>onion_connection_close_socket\<close> (after
  its first trace line): no \<open>gnutls_bye\<close>, no \<open>gnutls_deinit\<close>, no
  \<open>onion_request_free\<close>, no \<open>free\<close>. So a second close releases nothing twice.
\<close>

theorem close_torn_down_only_closes_socket:
  "con_user_data (fst (onion_https_close bye0 con0 tr0)) = None \<and>
   (con_user_data con = None \<longrightarrow>
      onion_https_close bye con tr =
        (con, tr @ [ONION_DEBUG ''Close HTTPS connection'' [],
                    E_onion_connection_close_socket con]))"
  by (simp add: onion_https_close_def Let_def split: option.splits)

text \<open>
  A live connection closed twice: the session, the request and the data are each
  released once, and the second close only closes the socket.
\<close>

theorem close_torn_down_only_closes_socket_witness:
  "con_user_data (fst (onion_https_close 0 \<lparr>fd = 7, con_user_data = Some \<lparr>req = 22, session = 21\<rparr>\<rparr> [])) = None \<and>
   onion_https_close (- 10)
     (fst (onion_https_close 0 \<lparr>fd = 7, con_user_data = Some \<lparr>req = 22, session = 21\<rparr>\<rparr> []))
     (snd (onion_https_close 0 \<lparr>fd = 7, con_user_data = Some \<lparr>req = 22, session = 21\<rparr>\<rparr> [])) =
   (\<lparr>fd = 7, con_user_data = None\<rparr>,
    [ONION_DEBUG ''Close HTTPS connection'' [],
     ONION_DEBUG ''Close HTTPS connection %p, oc %p'' [ArgPtr 21, ArgInt 7],
     E_gnutls_bye 21 0,
     ONION_DEBUG ''Free session %p'' [ArgInt 7],
     E_gnutls_deinit 21,
     E_onion_request_free 22,
     E_free_onion_https_connection \<lparr>req = 22, session = 21\<rparr>,
     E_onion_connection_close_socket \<lparr>fd = 7, con_user_data = None\<rparr>,
     ONION_DEBUG ''Close HTTPS connection'' [],
     E_onion_connection_close_socket \<lparr>fd = 7, con_user_data = None\<rparr>])"
proof -
  let ?c = "\<lparr>fd = 7, con_user_data = Some \<lparr>req = 22, session = 21\<rparr>\<rparr>"
  have first: "onion_https_close 0 ?c [] =
    (\<lparr>fd = 7, con_user_data = None\<rparr>,
     [ONION_DEBUG ''Close HTTPS connection'' [],
      ONION_DEBUG ''Close HTTPS connection %p, oc %p'' [ArgPtr 21, ArgInt 7],
      E_gnutls_bye 21 0,
      ONION_DEBUG ''Free session %p'' [ArgInt 7],
      E_gnutls_deinit 21,
      E_onion_request_free 22,
      E_free_onion_https_connection \<lparr>req = 22, session = 21\<rparr>,
      E_onion_connection_close_socket \<lparr>fd = 7, con_user_data = None\<rparr>])"
    by (simp add: onion_https_close_def Let_def)
  have n: "con_user_data (fst (onion_https_close 0 ?c [])) = None"
    using close_torn_down_only_closes_socket[of 0 ?c "[]"] by simp
  from close_torn_down_only_closes_socket[of 0 ?c "[]" "fst (onion_https_close 0 ?c [])" "- 10"
          "snd (onion_https_close 0 ?c [])"] n
  have "onion_https_close (- 10) (fst (onion_https_close 0 ?c [])) (snd (onion_https_close 0 ?c [])) =
        (fst (onion_https_close 0 ?c []),
         snd (onion_https_close 0 ?c []) @ [ONION_DEBUG ''Close HTTPS connection'' [],
             E_onion_connection_close_socket (fst (onion_https_close 0 ?c []))])"
    by simp
  then show ?thesis using n by (simp add: first)
qed

text \<open>
  C4. Close of a live channel (data attached, session not NULL), entered with any trace
  and whatever \<open>gnutls_bye\<close> returns, appends exactly these calls in this order:
  \<open>gnutls_bye\<close>, \<open>gnutls_deinit\<close>, \<open>onion_request_free\<close>, \<open>free\<close> of the data, and
  last \<open>onion_connection_close_socket\<close>, which receives the connection with its data
  already cleared (with three trace lines between them).
\<close>

theorem close_live_order:
  assumes "con_user_data con = Some d" and "session d \<noteq> 0"
  shows "onion_https_close bye con tr =
           (con\<lparr>con_user_data := None\<rparr>,
            tr @ [ONION_DEBUG ''Close HTTPS connection'' [],
                  ONION_DEBUG ''Close HTTPS connection %p, oc %p''
                    [ArgPtr (session d), ArgInt (fd con)],
                  E_gnutls_bye (session d) bye,
                  ONION_DEBUG ''Free session %p'' [ArgInt (fd con)],
                  E_gnutls_deinit (session d),
                  E_onion_request_free (req d),
                  E_free_onion_https_connection d,
                  E_onion_connection_close_socket (con\<lparr>con_user_data := None\<rparr>)]) \<and>
         filter (\<lambda>e. \<not> is_debug e) (drop (length tr) (snd (onion_https_close bye con tr))) =
           [E_gnutls_bye (session d) bye,
            E_gnutls_deinit (session d),
            E_onion_request_free (req d),
            E_free_onion_https_connection d,
            E_onion_connection_close_socket (con\<lparr>con_user_data := None\<rparr>)]"
  using assms by (simp add: onion_https_close_def Let_def)

text \<open>
  A close that is entered after a read, and whose \<open>gnutls_bye\<close> fails with -10, still
  makes every call and ends with the socket closed.
\<close>

theorem close_live_order_witness:
  "onion_https_close (- 10) \<lparr>fd = 7, con_user_data = Some \<lparr>req = 22, session = 21\<rparr>\<rparr>
     [E_gnutls_record_recv 21 512 0] =
     (\<lparr>fd = 7, con_user_data = None\<rparr>,
      [E_gnutls_record_recv 21 512 0,
       ONION_DEBUG ''Close HTTPS connection'' [],
       ONION_DEBUG ''Close HTTPS connection %p, oc %p'' [ArgPtr 21, ArgInt 7],
       E_gnutls_bye 21 (- 10),
       ONION_DEBUG ''Free session %p'' [ArgInt 7],
       E_gnutls_deinit 21,
       E_onion_request_free 22,
       E_free_onion_https_connection \<lparr>req = 22, session = 21\<rparr>,
       E_onion_connection_close_socket \<lparr>fd = 7, con_user_data = None\<rparr>]) \<and>
   filter (\<lambda>e. \<not> is_debug e)
     (drop 1 (snd (onion_https_close (- 10)
                     \<lparr>fd = 7, con_user_data = Some \<lparr>req = 22, session = 21\<rparr>\<rparr>
                     [E_gnutls_record_recv 21 512 0]))) =
     [E_gnutls_bye 21 (- 10),
      E_gnutls_deinit 21,
      E_onion_request_free 22,
      E_free_onion_https_connection \<lparr>req = 22, session = 21\<rparr>,
      E_onion_connection_close_socket \<lparr>fd = 7, con_user_data = None\<rparr>]"
  using close_live_order[of "\<lparr>fd = 7, con_user_data = Some \<lparr>req = 22, session = 21\<rparr>\<rparr>"
          "\<lparr>req = 22, session = 21\<rparr>" "- 10" "[E_gnutls_record_recv 21 512 0]"]
  by simp

subsection \<open>Reading\<close>

text \<open>
  C6. On a live channel read returns what \<open>gnutls_record_recv\<close> returned. A
  negative result is logged with \<open>gnutls_strerror\<close> of it and returned as it is; a
  result of 0 (or more) is returned with no error logged; and the value returned for 0
  differs from the value returned for any negative result.
\<close>

theorem read_zero_is_not_an_error:
  assumes "con_user_data con = Some ud"
  shows "fst (onion_https_read strerror recv con len tr) = Inr recv \<and>
         (recv < 0 \<longrightarrow>
            snd (onion_https_read strerror recv con len tr) =
              tr @ [E_gnutls_record_recv (session ud) len recv,
                    ONION_DEBUG ''Read! (%p), %d bytes'' [ArgPtr (session ud), ArgInt recv],
                    ONION_ERROR ''Reading data has failed (%s)'' [ArgStr (strerror recv)]]) \<and>
         (0 \<le> recv \<longrightarrow>
            snd (onion_https_read strerror recv con len tr) =
              tr @ [E_gnutls_record_recv (session ud) len recv,
                    ONION_DEBUG ''Read! (%p), %d bytes'' [ArgPtr (session ud), ArgInt recv]]) \<and>
         (recv < 0 \<longrightarrow>
            fst (onion_https_read strerror 0 con len tr) \<noteq>
            fst (onion_https_read strerror recv con len tr))"
  using assms by (simp add: onion_https_read_def Let_def)

text \<open>A read of 0 bytes and a read that fails with -12.\<close>

theorem read_zero_is_not_an_error_witness:
  "fst (onion_https_read example_strerror 0 \<lparr>fd = 7, con_user_data = Some \<lparr>req = 22, session = 21\<rparr>\<rparr> 512 []) = Inr 0 \<and>
   filter is_error_log
     (snd (onion_https_read example_strerror 0 \<lparr>fd = 7, con_user_data = Some \<lparr>req = 22, session = 21\<rparr>\<rparr> 512 [])) = [] \<and>
   fst (onion_https_read example_strerror (- 12) \<lparr>fd = 7, con_user_data = Some \<lparr>req = 22, session = 21\<rparr>\<rparr> 512 []) = Inr (- 12) \<and>
   filter is_error_log
     (snd (onion_https_read example_strerror (- 12) \<lparr>fd = 7, con_user_data = Some \<lparr>req = 22, session = 21\<rparr>\<rparr> 512 [])) =
     [ONION_ERROR ''Reading data has failed (%s)'' [ArgStr ''A TLS fatal alert has been received.'']]"
  using read_zero_is_not_an_error[of "\<lparr>fd = 7, con_user_data = Some \<lparr>req = 22, session = 21\<rparr>\<rparr>"
          "\<lparr>req = 22, session = 21\<rparr>" example_strerror 0 512 "[]"]
        read_zero_is_not_an_error[of "\<lparr>fd = 7, con_user_data = Some \<lparr>req = 22, session = 21\<rparr>\<rparr>"
          "\<lparr>req = 22, session = 21\<rparr>" example_strerror "- 12" 512 "[]"]
  by (simp add: example_strerror_def)

subsection \<open>Listen-point teardown\<close>



subsection \<open>Listen-point construction\<close>

lemma dh_bits_requested_append:
  "dh_bits_requested (a @ b) = dh_bits_requested a @ dh_bits_requested b"
  by (simp add: dh_bits_requested_def)

lemma dh_bits_set_certificate:
  "dh_bits_requested (snd (set_certificate K E cred type filename va tr)) = dh_bits_requested tr"
  by (simp add: set_certificate_def Let_def dh_bits_requested_def split: list.splits)

lemma dh_bits_onion_https_free:
  "dh_bits_requested (snd (onion_https_free K op tr)) = dh_bits_requested tr"
  by (simp add: onion_https_free_def Let_def dh_bits_requested_def split: option.splits)

lemma dh_bits_onion_listen_point_free:
  "dh_bits_requested (snd (onion_listen_point_free K op tr)) = dh_bits_requested tr"
proof -
  have "dh_bits_requested (snd (onion_https_free K op tr)) = dh_bits_requested tr"
    by (rule dh_bits_onion_https_free)
  then show ?thesis
    by (auto simp add: onion_listen_point_free_def dh_bits_requested_def
          split: option.splits hook.splits prod.splits sum.splits)
qed

text \<open>
  C8, as the specification states it: construction initialises the Diffie-Hellman
  parameters with a modern, configurable minimum strength rather than a fixed legacy
  constant. The code asks for 1024 bits, a literal at line 85. Two successful
  constructions with different certificate modes, formats and files both ask for
  1024 bits.
\<close>

theorem dh_strength_not_configurable:
  "dh_bits_requested
     (snd (onion_https_new example_consts (example_setup 0) 1 ''cert.pem'' [''key.pem''] [])) = [1024] \<and>
   dh_bits_requested
     (snd (onion_https_new example_consts (example_setup 0) 0x104 ''store.p12'' [''secret''] [])) = [1024] \<and>
   fst (onion_https_new example_consts (example_setup 0) 1 ''cert.pem'' [''key.pem''] []) \<noteq> Inr None \<and>
   fst (onion_https_new example_consts (example_setup 0) 0x104 ''store.p12'' [''secret''] []) \<noteq> Inr None"
  by (simp add: onion_https_new_def set_certificate_def certificate_fmt_def example_consts_def
        example_setup_def Let_def dh_bits_requested_def)

text \<open>
  C8, amended: every call of \<open>onion_https_new\<close> asks \<open>gnutls_dh_params_generate2\<close>
  exactly once, for 1024 bits, whatever its arguments and whatever the engine answers.
\<close>

theorem dh_strength_is_fixed_1024:
  "dh_bits_requested (snd (onion_https_new K E type filename va tr)) =
     dh_bits_requested tr @ [1024]"
proof -
  let ?https = "\<lparr>x509_cred = new_cred E, dh_params = new_dh E, priority_cache = new_priority E\<rparr>"
  let ?op = "onion_listen_point_new
                \<lparr>op_user_data := Some ?https,
                 op_connection_new := Some Hook_onion_https_accept_connection,
                 op_free := Some Hook_onion_https_free,
                 op_read := Some Hook_onion_https_read,
                 op_write := Some Hook_onion_https_write,
                 op_close := Some Hook_onion_https_close,
                 op_read_ready := Some Hook_onion_http_read_ready\<rparr>"
  let ?tr1 = "tr @ [E_onion_listen_point_new, E_calloc_onion_https]
                  @ (if HAVE_PTHREADS E then [E_gcry_control_SET_THREAD_CBS] else [])
                  @ [E_gnutls_global_init,
                     E_gnutls_certificate_allocate_credentials (new_cred E),
                     E_gnutls_dh_params_init (new_dh E),
                     E_gnutls_dh_params_generate2 (new_dh E) 1024,
                     E_gnutls_certificate_set_dh_params (new_cred E) (new_dh E),
                     E_gnutls_priority_init (new_priority E)
                       ''PERFORMANCE:%SAFE_RENEGOTIATION:-VERS-TLS1.0'']"
  have p: "dh_bits_requested ?tr1 = dh_bits_requested tr @ [1024]"
    by (simp add: dh_bits_requested_def)
  obtain res tr2 where sc: "set_certificate K E (new_cred E) type filename va ?tr1 = (res, tr2)"
    by (cases "set_certificate K E (new_cred E) type filename va ?tr1")
  have q: "dh_bits_requested tr2 = dh_bits_requested tr @ [1024]"
    using dh_bits_set_certificate[of K E "new_cred E" type filename va ?tr1] sc p by simp
  show ?thesis
  proof (cases res)
    case (Inl f)
    then show ?thesis using sc q by (simp add: onion_https_new_def Let_def)
  next
    case (Inr r)
    show ?thesis
    proof (cases "r < 0")
      case False
      then show ?thesis using sc q Inr
        by (simp add: onion_https_new_def Let_def dh_bits_requested_append)
          (simp add: dh_bits_requested_def)
    next
      case True
      let ?tr3 = "tr2 @ [ONION_ERROR ''Error setting the certificate (%s)''
                                [ArgStr (setup_strerror E r)]]"
      obtain res3 tr3 where lf: "onion_listen_point_free K ?op ?tr3 = (res3, tr3)"
        by (cases "onion_listen_point_free K ?op ?tr3")
      have "dh_bits_requested tr3 = dh_bits_requested ?tr3"
        using dh_bits_onion_listen_point_free[of K ?op ?tr3] lf by simp
      also have "\<dots> = dh_bits_requested tr @ [1024]"
        using q by (simp add: dh_bits_requested_append) (simp add: dh_bits_requested_def)
      finally have r3: "dh_bits_requested tr3 = dh_bits_requested tr @ [1024]" .
      have "snd (onion_https_new K E type filename va tr) = tr3"
        using sc Inr True lf by (simp add: onion_https_new_def Let_def split: sum.splits)
      then show ?thesis using r3 by simp
    qed
  qed
qed

text \<open>
  When the certificate cannot be set, the constructor calls \<open>onion_listen_point_free\<close>
  on a listen point that no server owns, and \<open>onion_https_free\<close> reads
  \<open>op->server->flags\<close>. So the constructor has no path that returns NULL.
\<close>

lemma onion_https_new_never_returns_NULL:
  "fst (onion_https_new K E type filename va tr) \<noteq> Inr None"
  by (simp add: onion_https_new_def Let_def onion_listen_point_free_def
        onion_https_free_def onion_listen_point_new_def split: prod.splits sum.splits)

text \<open>
  C5. A certificate-configuration failure should abort construction, log the error,
  return failure to the caller and release everything allocated for the listen point.
  The code logs the error and starts the release, but does not get to return. With key
  mode and a certificate file the engine cannot read (-64), the trace ends inside
  \<open>onion_https_free\<close>: the credential store, the Diffie-Hellman parameters and the
  priority cache are released, then line 141 dereferences the NULL \<open>op->server\<close>. The
  \<open>onion_https\<close> structure and the listen point are not freed, and no NULL is returned.
\<close>

theorem new_load_failure_does_not_return:
  "onion_https_new example_consts (example_setup (- 64)) 1 ''missing.pem'' [''key.pem''] [] =
     (Inl NullDeref,
      [E_onion_listen_point_new,
       E_calloc_onion_https,
       E_gcry_control_SET_THREAD_CBS,
       E_gnutls_global_init,
       E_gnutls_certificate_allocate_credentials 11,
       E_gnutls_dh_params_init 12,
       E_gnutls_dh_params_generate2 12 1024,
       E_gnutls_certificate_set_dh_params 11 12,
       E_gnutls_priority_init 13 ''PERFORMANCE:%SAFE_RENEGOTIATION:-VERS-TLS1.0'',
       E_gnutls_certificate_set_x509_key_file 11 ''missing.pem'' ''key.pem'' GNUTLS_X509_FMT_PEM (- 64),
       ONION_ERROR ''Error setting the certificate (%s)'' [ArgStr ''Error while reading file.''],
       ONION_DEBUG ''Close HTTPS %s:%s'' [ArgStrPtr None, ArgStrPtr None],
       E_gnutls_certificate_free_credentials 11,
       E_gnutls_dh_params_deinit 12,
       E_gnutls_priority_deinit 13])"
  by (simp add: onion_https_new_def set_certificate_def certificate_fmt_def example_consts_def
        example_setup_def example_strerror_def Let_def onion_listen_point_free_def
        onion_https_free_def onion_listen_point_new_def)

text \<open>
  C10. The cleanup of a failed construction should be safe although the listen point
  was never attached to a server. It is not: \<open>onion_https_free\<close> on a listen point as
  the constructor leaves it (no server) dereferences the NULL \<open>op->server\<close> right
  after releasing the three engine objects, and so does \<open>onion_https_new\<close> with an
  unknown certificate mode (9), through \<open>onion_listen_point_free\<close>.
\<close>

theorem cleanup_dereferences_null_server:
  "onion_https_free example_consts
     (onion_listen_point_new
        \<lparr>op_user_data := Some \<lparr>x509_cred = 11, dh_params = 12, priority_cache = 13\<rparr>,
         op_free := Some Hook_onion_https_free\<rparr>) [] =
     (Inl NullDeref,
      [ONION_DEBUG ''Close HTTPS %s:%s'' [ArgStrPtr None, ArgStrPtr None],
       E_gnutls_certificate_free_credentials 11,
       E_gnutls_dh_params_deinit 12,
       E_gnutls_priority_deinit 13]) \<and>
   onion_https_new example_consts (example_setup 0) 9 ''cert.pem'' [] [] =
     (Inl NullDeref,
      [E_onion_listen_point_new,
       E_calloc_onion_https,
       E_gcry_control_SET_THREAD_CBS,
       E_gnutls_global_init,
       E_gnutls_certificate_allocate_credentials 11,
       E_gnutls_dh_params_init 12,
       E_gnutls_dh_params_generate2 12 1024,
       E_gnutls_certificate_set_dh_params 11 12,
       E_gnutls_priority_init 13 ''PERFORMANCE:%SAFE_RENEGOTIATION:-VERS-TLS1.0'',
       ONION_ERROR ''Set unknown type of certificate: %d'' [ArgInt 9],
       ONION_ERROR ''Error setting the certificate (%s)'' [ArgStr ''(unknown error code)''],
       ONION_DEBUG ''Close HTTPS %s:%s'' [ArgStrPtr None, ArgStrPtr None],
       E_gnutls_certificate_free_credentials 11,
       E_gnutls_dh_params_deinit 12,
       E_gnutls_priority_deinit 13])"
  by (simp add: onion_https_new_def set_certificate_def certificate_fmt_def example_consts_def
        example_setup_def example_strerror_def Let_def onion_listen_point_free_def
        onion_https_free_def onion_listen_point_new_def)

end
